theory Spec2Isabelle
  imports Main "HOL-Library.Sublist" "HOL-Library.AList"
begin

unbundle bit_operations_syntax

section \<open>Python string primitives used by plugin.py\<close>

text \<open>
  A Python \<open>str\<close> is modelled as a \<open>string\<close>; one \<open>char\<close> is one code point, so the
  model covers the code points 0 to 255. \<open>py_replace old new s\<close> is \<open>s.replace(old, new)\<close>:
  the occurrences of \<open>old\<close> are replaced from left to right without overlap, and an empty
  \<open>old\<close> matches before every character and at the end.
\<close>

fun py_replace :: "string \<Rightarrow> string \<Rightarrow> string \<Rightarrow> string" where
  "py_replace old new [] = (if old = [] then new else [])"
| "py_replace old new (c # cs) =
     (if old = [] then new @ c # py_replace old new cs
      else if prefix old (c # cs) then new @ py_replace old new (drop (length old) (c # cs))
      else c # py_replace old new cs)"

text \<open>\<open>str.isspace\<close> on one code point below 256, and \<open>str.strip()\<close> without argument.\<close>

definition py_isspace :: "char \<Rightarrow> bool" where
  "py_isspace c =
     (let n = (of_char c :: nat)
      in (9 \<le> n \<and> n \<le> 13) \<or> (28 \<le> n \<and> n \<le> 32) \<or> n = 133 \<or> n = 160)"

definition py_strip :: "string \<Rightarrow> string" where
  "py_strip s = rev (dropWhile py_isspace (rev (dropWhile py_isspace s)))"

text \<open>\<open>str(n)\<close> for an integer, and \<open>str(v)\<close> for a value that may be \<open>None\<close>.\<close>

function str_nat :: "nat \<Rightarrow> string" where
  "str_nat n =
     (if n < 10 then [char_of (48 + n)]
      else str_nat (n div 10) @ [char_of (48 + n mod 10)])"
  by pat_completeness auto
termination
  by (relation "measure id") auto

declare str_nat.simps [simp del]

definition str_int :: "int \<Rightarrow> string" where
  "str_int i = (if i < 0 then CHR ''-'' # str_nat (nat (- i)) else str_nat (nat i))"

definition py_str :: "('a \<Rightarrow> string) \<Rightarrow> 'a option \<Rightarrow> string" where
  "py_str f v = (case v of None \<Rightarrow> ''None'' | Some x \<Rightarrow> f x)"

text \<open>\<open>posixpath.join\<close> of two components and \<open>posixpath.dirname\<close>.\<close>

definition path_join :: "string \<Rightarrow> string \<Rightarrow> string" where
  "path_join a b =
     (if prefix ''/'' b then b
      else if a = [] \<or> suffix ''/'' a then a @ b
      else a @ ''/'' @ b)"

definition dirname :: "string \<Rightarrow> string" where
  "dirname p =
     (let head = rev (dropWhile (\<lambda>c. c \<noteq> CHR ''/'') (rev p))
      in if head \<noteq> [] \<and> \<not> list_all (\<lambda>c. c = CHR ''/'') head
         then rev (dropWhile (\<lambda>c. c = CHR ''/'') (rev head))
         else head)"

text \<open>
  \<open>json.dumps\<close> of a list of strings with the default options: items separated by a comma
  and a space, every character outside the printable ASCII range escaped.
\<close>

definition hex_digit :: "nat \<Rightarrow> char" where
  "hex_digit n = (if n < 10 then char_of (48 + n) else char_of (87 + n))"

definition json_escape :: "char \<Rightarrow> string" where
  "json_escape c =
     (let n = (of_char c :: nat)
      in if c = CHR 0x22 then [CHR 0x5C, CHR 0x22]
         else if c = CHR 0x5C then [CHR 0x5C, CHR 0x5C]
         else if c = CHR 0x0A then [CHR 0x5C, CHR ''n'']
         else if c = CHR 0x0D then [CHR 0x5C, CHR ''r'']
         else if c = CHR 0x09 then [CHR 0x5C, CHR ''t'']
         else if c = CHR 0x08 then [CHR 0x5C, CHR ''b'']
         else if c = CHR 0x0C then [CHR 0x5C, CHR ''f'']
         else if 32 \<le> n \<and> n \<le> 126 then [c]
         else [CHR 0x5C, CHR ''u'', CHR ''0'', CHR ''0'', hex_digit (n div 16), hex_digit (n mod 16)])"

definition json_string :: "string \<Rightarrow> string" where
  "json_string s = CHR 0x22 # concat (map json_escape s) @ [CHR 0x22]"

fun json_items :: "string list \<Rightarrow> string" where
  "json_items [] = []"
| "json_items [x] = json_string x"
| "json_items (x # y # ys) = json_string x @ '', '' @ json_items (y # ys)"

definition json_dumps :: "string list \<Rightarrow> string" where
  "json_dumps xs = ''['' @ json_items xs @ '']''"

text \<open>
  What a JSON text means, for comparison with \<open>json_dumps\<close>: a reader of JSON arrays of
  strings after the JSON grammar (RFC 8259), one character at a time. White space is
  allowed around the brackets and the commas; inside a string a control character is
  refused and a backslash starts an escape, one of the eight short ones or \<open>u\<close> and four
  hexadecimal digits. A code point above 255 is refused, as the string type ends there.
\<close>

definition json_ws :: "char \<Rightarrow> bool" where
  "json_ws c = (c = CHR '' '' \<or> c = CHR 0x09 \<or> c = CHR 0x0A \<or> c = CHR 0x0D)"

definition unhex :: "char \<Rightarrow> nat option" where
  "unhex c =
     (let n = (of_char c :: nat)
      in if 48 \<le> n \<and> n \<le> 57 then Some (n - 48)
         else if 97 \<le> n \<and> n \<le> 102 then Some (n - 87)
         else if 65 \<le> n \<and> n \<le> 70 then Some (n - 55)
         else None)"

definition json_unescape :: "char \<Rightarrow> char option" where
  "json_unescape c =
     (if c = CHR 0x22 then Some (CHR 0x22)
      else if c = CHR 0x5C then Some (CHR 0x5C)
      else if c = CHR ''/'' then Some (CHR ''/'')
      else if c = CHR ''b'' then Some (CHR 0x08)
      else if c = CHR ''f'' then Some (CHR 0x0C)
      else if c = CHR ''n'' then Some (CHR 0x0A)
      else if c = CHR ''r'' then Some (CHR 0x0D)
      else if c = CHR ''t'' then Some (CHR 0x09)
      else None)"

datatype json_state =
    Start
  | Opened
  | Item "string list"
  | Str "string list" string
  | Esc "string list" string
  | Hex "string list" string "nat list"
  | After "string list"
  | Done "string list"
  | Fail

fun json_step :: "json_state \<Rightarrow> char \<Rightarrow> json_state" where
  "json_step Start c = (if json_ws c then Start else if c = CHR ''['' then Opened else Fail)"
| "json_step Opened c =
     (if json_ws c then Opened
      else if c = CHR '']'' then Done []
      else if c = CHR 0x22 then Str [] []
      else Fail)"
| "json_step (Item xs) c =
     (if json_ws c then Item xs else if c = CHR 0x22 then Str xs [] else Fail)"
| "json_step (Str xs s) c =
     (if c = CHR 0x22 then After (xs @ [s])
      else if c = CHR 0x5C then Esc xs s
      else if (of_char c :: nat) < 32 then Fail
      else Str xs (s @ [c]))"
| "json_step (Esc xs s) c =
     (if c = CHR ''u'' then Hex xs s []
      else case json_unescape c of None \<Rightarrow> Fail | Some e \<Rightarrow> Str xs (s @ [e]))"
| "json_step (Hex xs s ds) c =
     (case unhex c of
        None \<Rightarrow> Fail
      | Some d \<Rightarrow>
          if length ds < 3 then Hex xs s (ds @ [d])
          else (let n = foldl (\<lambda>a b. 16 * a + b) 0 (ds @ [d])
                in if n < 256 then Str xs (s @ [char_of n]) else Fail))"
| "json_step (After xs) c =
     (if json_ws c then After xs
      else if c = CHR '','' then Item xs
      else if c = CHR '']'' then Done xs
      else Fail)"
| "json_step (Done xs) c = (if json_ws c then Done xs else Fail)"
| "json_step Fail c = Fail"

definition json_loads :: "string \<Rightarrow> string list option" where
  "json_loads text = (case foldl json_step Start text of Done xs \<Rightarrow> Some xs | _ \<Rightarrow> None)"

section \<open>The host: payload, settings, operating system\<close>

text \<open>
  The payload \<open>data\<close> of the hook. A field read with \<open>data.get\<close> that the code passes to
  \<open>str\<close> or to a path function is an option: \<open>None\<close> is the absent key.
  \<open>source_abspath\<close> is \<open>data.get('source_data', {}).get('abspath')\<close>.
\<close>

record task_data =
  final_cache_path :: "string option"
  library_id :: "int option"
  task_processing_success :: bool
  file_move_processes_success :: bool
  destination_files :: "string list option"
  source_abspath :: "string option"

text \<open>
  The values \<open>settings.get_setting\<close> returns for the library of the task, and the directory
  \<open>settings.get_profile_directory()\<close> returns. The class \<open>PluginSettings\<close> belongs to the host.
\<close>

record settings =
  s_only_on_task_processing_success :: bool
  s_run_for_each_destination_file :: bool
  s_input_type :: string
  s_script :: string
  s_cmd :: string
  s_args :: string
  s_script_dependencies :: string
  s_profile_directory :: string

datatype error = Exception string | TypeError | OSError string

datatype level = DEBUG | INFO

text \<open>
  The world the hook acts on: the file system (of a type the host chooses), \<open>os.environ\<close>,
  the records sent to the plugin's logger, and every call of \<open>subprocess.Popen\<close> in order
  (command line and working directory).
\<close>

record 'fs world =
  fs :: 'fs
  environ :: "(string \<times> string) list"
  log :: "(level \<times> string) list"
  spawned :: "(string \<times> string option) list"

text \<open>
  The operating system calls of plugin.py, as the host provides them. \<open>popen\<close> is the child
  process of one \<open>subprocess.Popen(..., shell=True, cwd=cwd)\<close>: either \<open>Popen\<close> raises, or
  the child runs to its end and yields what \<open>readline\<close> returns before the loop sees the end
  of the output, its exit status, and the file system it leaves. A child that never exits
  blocks the hook for ever and is not a value of this model.
\<close>

record 'fs host =
  which :: "'fs \<Rightarrow> string \<Rightarrow> string option"
  path_isdir :: "'fs \<Rightarrow> string \<Rightarrow> bool"
  path_exists :: "'fs \<Rightarrow> string \<Rightarrow> bool"
  path_getsize :: "'fs \<Rightarrow> string \<Rightarrow> nat"
  makedirs :: "string \<Rightarrow> 'fs \<Rightarrow> error + 'fs"
  write_text :: "string \<Rightarrow> string \<Rightarrow> 'fs \<Rightarrow> error + 'fs"
  stat_mode :: "'fs \<Rightarrow> string \<Rightarrow> error + nat"
  chmod :: "string \<Rightarrow> nat \<Rightarrow> 'fs \<Rightarrow> error + 'fs"
  popen :: "string \<Rightarrow> string option \<Rightarrow> (string \<times> string) list \<Rightarrow> 'fs
              \<Rightarrow> error + (string list \<times> int \<times> 'fs)"

text \<open>Sequencing of steps that may raise: the first error ends the run.\<close>

definition bindE ::
  "(error + 'a) \<times> 'w \<Rightarrow> ('a \<Rightarrow> 'w \<Rightarrow> (error + 'b) \<times> 'w) \<Rightarrow> (error + 'b) \<times> 'w" where
  "bindE r f = (case r of (Inl e, w) \<Rightarrow> (Inl e, w) | (Inr x, w) \<Rightarrow> f x w)"

definition lift_fs :: "error + 'fs \<Rightarrow> 'fs world \<Rightarrow> (error + unit) \<times> 'fs world" where
  "lift_fs r w = (case r of Inl e \<Rightarrow> (Inl e, w) | Inr f \<Rightarrow> (Inr (), w\<lparr>fs := f\<rparr>))"

section \<open>exec_subprocess\<close>

text \<open>
  The polling loop: every line read is logged at debug level; the loop ends at the first
  empty read after the child has exited, which is logged too.
\<close>

fun poll_output :: "string list \<Rightarrow> (level \<times> string) list \<Rightarrow> (level \<times> string) list" where
  "poll_output [] lg = lg @ [(DEBUG, [])]"
| "poll_output (line_text # rest) lg = poll_output rest (lg @ [(DEBUG, line_text)])"

text \<open>
  The result is \<open>Inr (Some True)\<close> for \<open>return True\<close>, \<open>Inr None\<close> when the function falls
  off its end, and \<open>Inl\<close> for a raised exception.
\<close>

definition exec_subprocess ::
  "'fs host \<Rightarrow> string \<Rightarrow> string \<Rightarrow> string option \<Rightarrow> 'fs world
     \<Rightarrow> (error + bool option) \<times> 'fs world" where
  "exec_subprocess h cmd args cwd w =
     (let full_command = cmd @ '' '' @ args
      in if py_strip full_command \<noteq> [] then
           (let w1 = w\<lparr>log := log w @
                        [(DEBUG, ''Executing command: '' @ [CHR 0x27] @ full_command @ [CHR 0x27] @ ''.'')],
                      spawned := spawned w @ [(full_command, cwd)]\<rparr>
            in case popen h full_command cwd (environ w1) (fs w1) of
                 Inl e \<Rightarrow> (Inl e, w1)
               | Inr (out, returncode, fs') \<Rightarrow>
                   (let w2 = w1\<lparr>fs := fs', log := poll_output out (log w1)\<rparr>
                    in if returncode = 0 then (Inr (Some True), w2)
                       else (Inl (Exception (''Failed to execute command: '' @ [CHR 0x27] @
                                               full_command @ [CHR 0x27])), w2)))
         else (Inr None, w))"

section \<open>Provisioning and script materialisation\<close>

definition get_executable_venv_python ::
  "'fs host \<Rightarrow> string \<Rightarrow> string \<Rightarrow> string \<Rightarrow> 'fs world \<Rightarrow> (error + string) \<times> 'fs world" where
  "get_executable_venv_python h script_dependencies temp_working_directory
       dependency_cache_directory w =
     (let executable = which h (fs w) ''python3''
      in bindE (lift_fs (write_text h (path_join temp_working_directory ''requirements.txt'')
                           script_dependencies (fs w)) w) (\<lambda>_ w1.
         let cache_path = path_join dependency_cache_directory ''pip''
         in bindE (if \<not> path_isdir h (fs w1) cache_path
                   then lift_fs (makedirs h cache_path (fs w1)) w1 else (Inr (), w1)) (\<lambda>_ w2.
            bindE (exec_subprocess h (py_str id executable @ '' -m venv venv'') []
                     (Some temp_working_directory) w2) (\<lambda>_ w3.
            let executable' =
                  path_join (path_join (path_join temp_working_directory ''venv'') ''bin'') ''python3'';
                w4 = w3\<lparr>environ := AList.update ''PIP_CACHE_DIR'' cache_path (environ w3)\<rparr>
            in bindE (exec_subprocess h (executable' @ '' -m pip install -r requirements.txt'') []
                        (Some temp_working_directory) w4) (\<lambda>_ w5.
               (Inr executable', w5))))))"

definition get_executable_node ::
  "'fs host \<Rightarrow> string \<Rightarrow> string \<Rightarrow> string \<Rightarrow> 'fs world
     \<Rightarrow> (error + string option) \<times> 'fs world" where
  "get_executable_node h script_dependencies temp_working_directory
       dependency_cache_directory w =
     (let node_executable = which h (fs w) ''node'';
          npm_executable = which h (fs w) ''npm''
      in bindE (lift_fs (write_text h (path_join temp_working_directory ''package.json'')
                           script_dependencies (fs w)) w) (\<lambda>_ w1.
         let cache_path = path_join dependency_cache_directory ''node''
         in bindE (if \<not> path_isdir h (fs w1) cache_path
                   then lift_fs (makedirs h cache_path (fs w1)) w1 else (Inr (), w1)) (\<lambda>_ w2.
            bindE (exec_subprocess h
                     (py_str id npm_executable @ '' install --cache '' @ cache_path @
                        '' --prefer-offline '') [] (Some temp_working_directory) w2) (\<lambda>_ w3.
            (Inr node_executable, w3)))))"

text \<open>\<open>os.path.dirname(None)\<close> raises a \<open>TypeError\<close>.\<close>

definition get_temp_directory ::
  "'fs host \<Rightarrow> string option \<Rightarrow> 'fs world \<Rightarrow> (error + string) \<times> 'fs world" where
  "get_temp_directory h cache_file_path w =
     (case cache_file_path of
        None \<Rightarrow> (Inl TypeError, w)
      | Some p \<Rightarrow>
          (let output_directory = path_join (dirname p) ''postprocessor_script''
           in bindE (if \<not> path_isdir h (fs w) output_directory
                     then lift_fs (makedirs h output_directory (fs w)) w else (Inr (), w))
                (\<lambda>_ w1. (Inr output_directory, w1))))"

definition get_dependency_cache_directory ::
  "'fs host \<Rightarrow> settings \<Rightarrow> int option \<Rightarrow> 'fs world \<Rightarrow> (error + string) \<times> 'fs world" where
  "get_dependency_cache_directory h st lib_id w =
     (let profile_directory = s_profile_directory st;
          output_directory =
            path_join (path_join profile_directory ''.dependency_cache'') (py_str str_int lib_id)
      in bindE (if \<not> path_isdir h (fs w) output_directory
                then lift_fs (makedirs h output_directory (fs w)) w else (Inr (), w))
           (\<lambda>_ w1. (Inr output_directory, w1)))"

text \<open>\<open>stat.S_IEXEC\<close> is octal 100.\<close>

definition S_IEXEC :: nat where
  "S_IEXEC = 64"

definition build_script ::
  "'fs host \<Rightarrow> settings \<Rightarrow> task_data \<Rightarrow> 'fs world \<Rightarrow> (error + string) \<times> 'fs world" where
  "build_script h st d w =
     (let input_type = s_input_type st;
          script = s_script st
      in bindE (get_temp_directory h (final_cache_path d) w) (\<lambda>temp_working_directory w1.
         let script_dependencies = s_script_dependencies st
         in bindE (get_dependency_cache_directory h st (library_id d) w1)
              (\<lambda>dependency_cache_directory w2.
            let executable = which h (fs w2) input_type;
                script_extension = (if input_type = ''bash'' then ''sh'' else ''txt'')
            in bindE
                 (if input_type = ''python'' \<or> input_type = ''python3'' then
                    bindE (get_executable_venv_python h script_dependencies
                             temp_working_directory dependency_cache_directory w2)
                      (\<lambda>e w'. (Inr (''py'', Some e), w'))
                  else if input_type = ''node'' then
                    bindE (get_executable_node h script_dependencies
                             temp_working_directory dependency_cache_directory w2)
                      (\<lambda>e w'. (Inr (''js'', e), w'))
                  else (Inr (script_extension, executable), w2))
                 (\<lambda>(script_extension', executable') w3.
               let script_path = path_join temp_working_directory (''script.'' @ script_extension')
               in bindE (lift_fs (write_text h script_path script (fs w3)) w3) (\<lambda>_ w4.
                  bindE (case stat_mode h (fs w4) script_path of
                           Inl e \<Rightarrow> (Inl e, w4) | Inr st_mode \<Rightarrow> (Inr st_mode, w4)) (\<lambda>st_mode w5.
                  bindE (lift_fs (chmod h script_path (st_mode OR S_IEXEC) (fs w5)) w5) (\<lambda>_ w6.
                  (Inr (py_str id executable' @ '' '' @ script_path), w6))))))))"

section \<open>The hook\<close>

text \<open>\<open>args.replace('\n', ' ').replace('\r', '')\<close>: the line breaks of the arguments.\<close>

definition remove_line_breaks :: "string \<Rightarrow> string" where
  "remove_line_breaks args = py_replace [CHR 0x0D] [] (py_replace [CHR 0x0A] '' '' args)"

text \<open>
  The variable map is a Python dictionary, read in insertion order: an association list
  with distinct keys, updated in place by \<open>AList.update\<close>. One step of the substitution loop
  looks the key up, takes the key itself for a value that is \<open>None\<close>, and replaces the key
  in both strings.
\<close>

type_synonym variable_map = "(string \<times> string option) list"

definition substitute_key :: "variable_map \<Rightarrow> string \<times> string \<Rightarrow> string \<Rightarrow> string \<times> string" where
  "substitute_key variable_map ca key =
     (let v = (case map_of variable_map key of Some (Some x) \<Rightarrow> x | _ \<Rightarrow> key)
      in (py_replace key v (fst ca), py_replace key v (snd ca)))"

definition substitute :: "variable_map \<Rightarrow> string \<times> string \<Rightarrow> string \<times> string" where
  "substitute variable_map ca = foldl (substitute_key variable_map) ca (map fst variable_map)"

text \<open>
  The loop over \<open>destination_files\<close>. The strings \<open>cmd\<close> and \<open>args\<close> and the variable map are
  assigned in the body, so each iteration starts from what the one before has left.
\<close>

fun run_for_each_file ::
  "'fs host \<Rightarrow> variable_map \<Rightarrow> string \<Rightarrow> string \<Rightarrow> string list \<Rightarrow> 'fs world
     \<Rightarrow> (error + unit) \<times> 'fs world" where
  "run_for_each_file h variable_map cmd args [] w = (Inr (), w)"
| "run_for_each_file h variable_map cmd args (destination_file # rest) w =
     (let variable_map' = AList.update ''{output_file_path}'' (Some destination_file) variable_map;
          cmd' = fst (substitute variable_map' (cmd, args));
          args' = snd (substitute variable_map' (cmd, args));
          w1 = w\<lparr>log := log w @
                 [(INFO, ''Execute command on single file '' @ [CHR 0x27] @ cmd' @ '' '' @ args' @
                           [CHR 0x27] @ ''.'')]\<rparr>
      in case exec_subprocess h cmd' args' None w1 of
           (Inl e, w2) \<Rightarrow> (Inl e, w2)
         | (Inr _, w2) \<Rightarrow> run_for_each_file h variable_map' cmd' args' rest w2)"

text \<open>
  The values of \<open>variable_map\<close>, \<open>cmd\<close> and \<open>args\<close> after the iterations for a list of
  files (lines 367 to 375); they do not depend on what the processes do.
\<close>

fun loop_vars ::
  "variable_map \<Rightarrow> string \<Rightarrow> string \<Rightarrow> string list \<Rightarrow> variable_map \<times> string \<times> string" where
  "loop_vars variable_map cmd args [] = (variable_map, cmd, args)"
| "loop_vars variable_map cmd args (destination_file # rest) =
     (let variable_map' = AList.update ''{output_file_path}'' (Some destination_file) variable_map;
          cmd' = fst (substitute variable_map' (cmd, args));
          args' = snd (substitute variable_map' (cmd, args))
      in loop_vars variable_map' cmd' args' rest)"

text \<open>The other branch: \<open>data.get('destination_files', [])\<close> is dumped as JSON, one execution.\<close>

definition run_once ::
  "'fs host \<Rightarrow> variable_map \<Rightarrow> string \<Rightarrow> string \<Rightarrow> string list option \<Rightarrow> 'fs world
     \<Rightarrow> (error + unit) \<times> 'fs world" where
  "run_once h variable_map cmd args dest w =
     (let variable_map' =
            AList.update ''{output_files}''
              (Some (json_dumps (case dest of None \<Rightarrow> [] | Some files \<Rightarrow> files))) variable_map;
          cmd' = fst (substitute variable_map' (cmd, args));
          args' = snd (substitute variable_map' (cmd, args));
          w1 = w\<lparr>log := log w @
                 [(INFO, ''Execute command '' @ [CHR 0x27] @ cmd' @ '' '' @ args' @
                           [CHR 0x27] @ ''.'')]\<rparr>
      in case exec_subprocess h cmd' args' None w1 of
           (Inl e, w2) \<Rightarrow> (Inl e, w2)
         | (Inr _, w2) \<Rightarrow> (Inr (), w2))"

text \<open>
  The command of the run: the setting \<open>cmd\<close>, or the script that \<open>build_script\<close> writes.
\<close>

definition resolve_command ::
  "'fs host \<Rightarrow> settings \<Rightarrow> task_data \<Rightarrow> 'fs world \<Rightarrow> (error + string) \<times> 'fs world" where
  "resolve_command h st d w =
     (if s_input_type st \<noteq> ''command'' then build_script h st d w else (Inr (s_cmd st), w))"

text \<open>
  The variable map of lines 353 to 360. \<open>os.path.exists(None)\<close> raises a \<open>TypeError\<close>.
  Every value goes through \<open>str\<close>, and \<open>str(None)\<close> is the string \<open>None\<close>.
\<close>

definition build_variable_map :: "'fs host \<Rightarrow> task_data \<Rightarrow> 'fs \<Rightarrow> error + variable_map" where
  "build_variable_map h d f =
     (case source_abspath d of
        None \<Rightarrow> Inl TypeError
      | Some abspath \<Rightarrow>
          (let source_size = (if path_exists h f abspath then Some (path_getsize h f abspath) else None)
           in Inr [(''{library_id}'', Some (py_str str_int (library_id d))),
                   (''{final_cache_path}'', Some (py_str id (final_cache_path d))),
                   (''{source_file_path}'', Some abspath),
                   (''{source_file_size}'', Some (py_str str_nat source_size))]))"

text \<open>
  \<open>on_postprocessor_task_results(data)\<close>. Iterating over a \<open>destination_files\<close> that is
  \<open>None\<close> raises a \<open>TypeError\<close>. The function returns \<open>None\<close> on every path that does not
  raise.
\<close>

definition on_postprocessor_task_results ::
  "'fs host \<Rightarrow> settings \<Rightarrow> task_data \<Rightarrow> 'fs world \<Rightarrow> (error + unit) \<times> 'fs world" where
  "on_postprocessor_task_results h st d w =
     (if s_only_on_task_processing_success st \<and> \<not> task_processing_success d then (Inr (), w)
      else bindE (resolve_command h st d w) (\<lambda>cmd w1.
        let args = remove_line_breaks (s_args st);
            run_for_each_destination_file = s_run_for_each_destination_file st
        in case build_variable_map h d (fs w1) of
             Inl e \<Rightarrow> (Inl e, w1)
           | Inr variable_map \<Rightarrow>
               if run_for_each_destination_file then
                 (case destination_files d of
                    None \<Rightarrow> (Inl TypeError, w1)
                  | Some files \<Rightarrow> run_for_each_file h variable_map cmd args files w1)
               else run_once h variable_map cmd args (destination_files d) w1))"

section \<open>A host for concrete runs\<close>

text \<open>
  A small host on which the model is evaluated: the file system is the list of the files
  with their sizes, no directory has to be created, no interpreter is installed. A child
  process whose command line starts with \<open>false\<close> fails, one that starts with \<open>rm\<close>
  removes the file it names and fails when there is no such file, and any other succeeds.
\<close>

definition test_host :: "(string \<times> nat) list host" where
  "test_host =
     \<lparr>which = (\<lambda>f name. None),
      path_isdir = (\<lambda>f p. True),
      path_exists = (\<lambda>f p. map_of f p \<noteq> None),
      path_getsize = (\<lambda>f p. case map_of f p of None \<Rightarrow> 0 | Some n \<Rightarrow> n),
      makedirs = (\<lambda>p f. Inr f),
      write_text = (\<lambda>p text f. Inr (AList.update p (length text) f)),
      stat_mode = (\<lambda>f p. Inr 420),
      chmod = (\<lambda>p m f. Inr f),
      popen = (\<lambda>full_command cwd env f.
                 if prefix ''false'' (py_strip full_command) then Inr ([], 1, f)
                 else if prefix ''rm '' (py_strip full_command) then
                   (let p = drop 3 (py_strip full_command)
                    in if map_of f p \<noteq> None then Inr ([], 0, AList.delete p f)
                       else Inr ([''rm: cannot remove''], 1, f))
                 else Inr ([], 0, f))\<rparr>"

definition test_world :: "(string \<times> nat) list world" where
  "test_world = \<lparr>fs = [(''/library/in.mkv'', 1024)], environ = [], log = [], spawned = []\<rparr>"

definition test_settings :: settings where
  "test_settings =
     \<lparr>s_only_on_task_processing_success = False,
      s_run_for_each_destination_file = False,
      s_input_type = ''command'',
      s_script = [],
      s_cmd = ''echo'',
      s_args = ''{source_file_size}'',
      s_script_dependencies = [],
      s_profile_directory = ''/config''\<rparr>"

definition test_data :: task_data where
  "test_data =
     \<lparr>final_cache_path = Some ''/cache/task-1/out.mkv'',
      library_id = Some 1,
      task_processing_success = True,
      file_move_processes_success = True,
      destination_files = Some [''/out/a.mkv'', ''/out/b.mkv''],
      source_abspath = Some ''/library/in.mkv''\<rparr>"

section \<open>Facts about the string primitives\<close>

lemma py_strip_Nil_iff: "py_strip s = [] \<longleftrightarrow> list_all py_isspace s"
proof
  assume "py_strip s = []"
  then have a: "\<forall>x\<in>set (dropWhile py_isspace s). py_isspace x"
    by (simp add: py_strip_def dropWhile_eq_Nil_conv)
  have "dropWhile py_isspace s = []"
  proof (rule ccontr)
    assume n: "dropWhile py_isspace s \<noteq> []"
    then have "\<not> py_isspace (hd (dropWhile py_isspace s))" by (rule hd_dropWhile)
    moreover have "hd (dropWhile py_isspace s) \<in> set (dropWhile py_isspace s)" using n by simp
    ultimately show False using a by blast
  qed
  then show "list_all py_isspace s" by (simp add: dropWhile_eq_Nil_conv list_all_iff)
next
  assume "list_all py_isspace s"
  then show "py_strip s = []"
    by (auto simp: py_strip_def dropWhile_eq_Nil_conv list_all_iff dest: set_dropWhileD)
qed

lemma py_isspace_space: "py_isspace CHR '' ''"
  by (simp add: py_isspace_def)

lemma py_replace_char:
  "py_replace [x] new s = concat (map (\<lambda>c. if c = x then new else [c]) s)"
  by (induction s) auto

lemma py_replace_absent:
  "old \<noteq> [] \<Longrightarrow> \<not> set old \<subseteq> set s \<Longrightarrow> py_replace old new s = s"
proof (induction s)
  case Nil
  then show ?case by simp
next
  case (Cons c cs)
  have "\<not> prefix old (c # cs)"
    using Cons.prems(2) set_mono_prefix by blast
  moreover have "\<not> set old \<subseteq> set cs"
    using Cons.prems(2) by auto
  ultimately show ?case using Cons by simp
qed

lemma remove_line_breaks_concat:
  "remove_line_breaks s =
     concat (map (\<lambda>c. if c = CHR 0x0A then '' '' else if c = CHR 0x0D then [] else [c]) s)"
  unfolding remove_line_breaks_def py_replace_char
  by (induction s) auto

lemma remove_line_breaks_idem: "remove_line_breaks (remove_line_breaks s) = remove_line_breaks s"
proof -
  have a: "CHR 0x0A \<notin> set (remove_line_breaks s)" and b: "CHR 0x0D \<notin> set (remove_line_breaks s)"
    by (auto simp: remove_line_breaks_concat split: if_splits)
  show ?thesis
    using a b by (simp add: remove_line_breaks_def[of "remove_line_breaks s"] py_replace_absent)
qed

section \<open>json_dumps is read back by the JSON reader\<close>

lemma unhex_hex_digit: "d < 16 \<Longrightarrow> unhex (hex_digit d) = Some d"
  by (auto simp: unhex_def hex_digit_def Let_def)

lemma unhex_zero: "unhex CHR ''0'' = Some 0"
  by (simp add: unhex_def)

lemma json_step_hex_escape:
  assumes "unhex a = Some x" and "unhex b = Some y" and "16 * x + y < 256"
  shows "foldl json_step (Str xs s) [CHR 0x5C, CHR ''u'', CHR ''0'', CHR ''0'', a, b] =
           Str xs (s @ [char_of (16 * x + y)])"
  using assms by (simp add: unhex_zero)

lemma json_step_escape:
  "foldl json_step (Str xs s) (json_escape c) = Str xs (s @ [c])"
proof (cases "c \<in> {CHR 0x22, CHR 0x5C, CHR 0x0A, CHR 0x0D, CHR 0x09, CHR 0x08, CHR 0x0C}")
  case True
  then consider "c = CHR 0x22" | "c = CHR 0x5C" | "c = CHR 0x0A" | "c = CHR 0x0D"
    | "c = CHR 0x09" | "c = CHR 0x08" | "c = CHR 0x0C"
    by blast
  then show ?thesis
    by cases (simp_all add: json_escape_def json_unescape_def)
next
  case False
  then have ne: "c \<noteq> CHR 0x22" "c \<noteq> CHR 0x5C" "c \<noteq> CHR 0x0A" "c \<noteq> CHR 0x0D"
      "c \<noteq> CHR 0x09" "c \<noteq> CHR 0x08" "c \<noteq> CHR 0x0C"
    by simp_all
  define n where "n = (of_char c :: nat)"
  have e: "json_escape c =
      (if 32 \<le> n \<and> n \<le> 126 then [c]
       else [CHR 0x5C, CHR ''u'', CHR ''0'', CHR ''0'', hex_digit (n div 16), hex_digit (n mod 16)])"
    using ne by (simp add: json_escape_def Let_def n_def)
  show ?thesis
  proof (cases "32 \<le> n \<and> n \<le> 126")
    case True
    then have "\<not> (of_char c :: nat) < 32"
      by (simp add: n_def)
    then show ?thesis
      using True e ne by simp
  next
    case False
    have n: "n < 256"
      by (simp add: n_def)
    have d1: "n div 16 < 16"
      using n by arith
    have d0: "n mod 16 < 16"
      by simp
    have s: "16 * (n div 16) + n mod 16 = n"
      by simp
    have "foldl json_step (Str xs s) (json_escape c) =
          Str xs (s @ [char_of (16 * (n div 16) + n mod 16)])"
      unfolding e using False
      by (simp only: if_False json_step_hex_escape[OF unhex_hex_digit[OF d1] unhex_hex_digit[OF d0]]
            s n)
    then show ?thesis
      by (simp only: s) (simp add: n_def)
  qed
qed

lemma json_step_body:
  "foldl json_step (Str xs s) (concat (map json_escape t)) = Str xs (s @ t)"
  by (induction t arbitrary: s) (simp_all add: json_step_escape)

lemma json_step_string_Item:
  "foldl json_step (Item xs) (json_string s) = After (xs @ [s])"
  by (simp add: json_string_def json_ws_def json_step_body)

lemma json_step_string_Opened:
  "foldl json_step Opened (json_string s @ t) = foldl json_step (Item []) (json_string s @ t)"
  by (simp add: json_string_def json_ws_def)

lemma json_step_items:
  "foldl json_step (Item xs) (json_items (y # ys)) = After (xs @ y # ys)"
proof (induction ys arbitrary: xs y)
  case Nil
  show ?case by (simp add: json_step_string_Item)
next
  case (Cons z zs)
  have "foldl json_step (Item xs) (json_items (y # z # zs)) =
        foldl json_step (After (xs @ [y])) ('', '' @ json_items (z # zs))"
    by (simp add: json_step_string_Item)
  also have "\<dots> = foldl json_step (Item (xs @ [y])) (json_items (z # zs))"
    by (simp add: json_ws_def)
  also have "\<dots> = After ((xs @ [y]) @ z # zs)"
    by (rule Cons.IH)
  finally show ?case by simp
qed

lemma json_items_Cons: "\<exists>t. json_items (y # ys) = json_string y @ t"
  by (cases ys) simp_all

lemma json_loads_json_dumps: "json_loads (json_dumps xs) = Some xs"
proof (cases xs)
  case Nil
  then show ?thesis
    by (simp add: json_loads_def json_dumps_def json_ws_def)
next
  case (Cons y ys)
  obtain t where t: "json_items (y # ys) = json_string y @ t"
    using json_items_Cons by blast
  have "foldl json_step Opened (json_items (y # ys)) = foldl json_step (Item []) (json_items (y # ys))"
    unfolding t by (rule json_step_string_Opened)
  then have "foldl json_step Opened (json_items (y # ys)) = After (y # ys)"
    by (simp add: json_step_items)
  then show ?thesis
    using Cons by (simp add: json_loads_def json_dumps_def json_ws_def)
qed

section \<open>Facts about the variable map\<close>

lemma update_fresh: "k \<notin> fst ` set al \<Longrightarrow> AList.update k v al = al @ [(k, v)]"
  by (induction al) auto

lemma substitute_key_append:
  "key \<in> fst ` set vm \<Longrightarrow> substitute_key (vm @ e) ca key = substitute_key vm ca key"
proof -
  assume "key \<in> fst ` set vm"
  then have "map_of (vm @ e) key = map_of vm key"
    by (simp add: map_add_dom_app_simps(1) dom_map_of_conv_image_fst map_add_def split: option.splits)
       (metis domIff dom_map_of_conv_image_fst)
  then show ?thesis by (simp add: substitute_key_def)
qed

lemma foldl_substitute_key_append:
  "set ks \<subseteq> fst ` set vm \<Longrightarrow>
     foldl (substitute_key (vm @ e)) ca ks = foldl (substitute_key vm) ca ks"
  by (induction ks arbitrary: ca) (simp_all add: substitute_key_append)

text \<open>A key added last is replaced last, in what the earlier keys have left.\<close>

lemma substitute_fresh:
  assumes "k \<notin> fst ` set vm"
  shows "substitute (AList.update k (Some v) vm) ca =
           (py_replace k v (fst (substitute vm ca)), py_replace k v (snd (substitute vm ca)))"
proof -
  have "map_of vm k = None"
    using assms by (simp add: map_of_eq_None_iff)
  then have m: "map_of (vm @ [(k, Some v)]) k = Some (Some v)"
    by (simp add: map_add_def)
  show ?thesis
    using assms m
    by (simp add: update_fresh substitute_def foldl_substitute_key_append substitute_key_def)
qed

lemma build_variable_map_keys:
  "build_variable_map h d f = Inr vm \<Longrightarrow>
     map fst vm = [''{library_id}'', ''{final_cache_path}'', ''{source_file_path}'', ''{source_file_size}'']"
  by (auto simp: build_variable_map_def Let_def split: option.splits)

section \<open>Facts about the processes spawned\<close>

lemma exec_subprocess_spawned_eq:
  "spawned (snd (exec_subprocess h c a cwd w)) =
     spawned w @ (if list_all py_isspace (c @ '' '' @ a) then [] else [(c @ '' '' @ a, cwd)])"
  by (simp add: exec_subprocess_def py_strip_Nil_iff Let_def split: sum.splits prod.splits)

lemma exec_subprocess_spawned:
  "\<exists>ss. spawned (snd (exec_subprocess h c a cwd w)) = spawned w @ ss \<and> length ss \<le> 1"
  by (simp add: exec_subprocess_spawned_eq)

lemma loop_vars_snoc:
  "loop_vars vm c a (xs @ [k]) =
     (case loop_vars vm c a xs of (vm1, c1, a1) \<Rightarrow>
        (let vm' = AList.update ''{output_file_path}'' (Some k) vm1
         in (vm', fst (substitute vm' (c1, a1)), snd (substitute vm' (c1, a1)))))"
  by (induction xs arbitrary: vm c a) (simp_all add: Let_def)

lemma run_for_each_file_append:
  "run_for_each_file h vm c a (xs @ ys) w =
     (case run_for_each_file h vm c a xs w of
        (Inl e, w') \<Rightarrow> (Inl e, w')
      | (Inr u, w') \<Rightarrow>
          (case loop_vars vm c a xs of (vm1, c1, a1) \<Rightarrow> run_for_each_file h vm1 c1 a1 ys w'))"
proof (induction xs arbitrary: vm c a w)
  case Nil
  then show ?case by simp
next
  case (Cons x xs)
  then show ?case
    by (simp add: Let_def split: prod.splits sum.splits)
qed

lemma run_for_each_file_spawned:
  "\<exists>ss. spawned (snd (run_for_each_file h vm c a xs w)) = spawned w @ ss \<and> length ss \<le> length xs"
proof (induction xs arbitrary: vm c a w)
  case Nil
  then show ?case by simp
next
  case (Cons x xs)
  define vm' where "vm' = AList.update ''{output_file_path}'' (Some x) vm"
  define c' where "c' = fst (substitute vm' (c, a))"
  define a' where "a' = snd (substitute vm' (c, a))"
  define w1 where "w1 = w\<lparr>log := log w @
                 [(INFO, ''Execute command on single file '' @ [CHR 0x27] @ c' @ '' '' @ a' @
                           [CHR 0x27] @ ''.'')]\<rparr>"
  obtain r w2 where e: "exec_subprocess h c' a' None w1 = (r, w2)"
    by (cases "exec_subprocess h c' a' None w1")
  obtain s1 where s1: "spawned w2 = spawned w @ s1" "length s1 \<le> 1"
    using exec_subprocess_spawned[of h c' a' None w1] e by (auto simp: w1_def)
  show ?case
  proof (cases r)
    case (Inl err)
    then have "run_for_each_file h vm c a (x # xs) w = (Inl err, w2)"
      using e by (simp add: Let_def vm'_def c'_def a'_def w1_def)
    then show ?thesis using s1 by auto
  next
    case (Inr v)
    then have eq: "run_for_each_file h vm c a (x # xs) w = run_for_each_file h vm' c' a' xs w2"
      using e by (simp add: Let_def vm'_def c'_def a'_def w1_def)
    obtain s2 where s2: "spawned (snd (run_for_each_file h vm' c' a' xs w2)) = spawned w2 @ s2"
        "length s2 \<le> length xs"
      using Cons.IH[of vm' c' a' w2] by blast
    show ?thesis
      unfolding eq using s1 s2 by (intro exI[of _ "s1 @ s2"]) auto
  qed
qed

section \<open>Properties of exec_subprocess\<close>

text \<open>
  Claim C8. When the command and the arguments joined by one space hold nothing but white
  space, \<open>exec_subprocess\<close> falls off its end: it raises nothing and leaves the world as
  it was, so \<open>Popen\<close> is not called and nothing is logged.
\<close>

theorem exec_subprocess_blank_noop:
  "list_all py_isspace (cmd @ '' '' @ args) \<Longrightarrow>
     exec_subprocess h cmd args cwd w = (Inr None, w)"
  by (simp add: exec_subprocess_def py_strip_Nil_iff)

theorem exec_subprocess_blank_noop_witness:
  "list_all py_isspace ([] @ '' '' @ [CHR 0x09, CHR 0x0A])
   \<and> exec_subprocess test_host [] [CHR 0x09, CHR 0x0A] (Some ''/tmp'') test_world
       = (Inr None, test_world)"
proof -
  have b: "list_all py_isspace ([] @ '' '' @ [CHR 0x09, CHR 0x0A])"
    by (simp add: py_isspace_def)
  show ?thesis
    using b exec_subprocess_blank_noop [OF b, of test_host "Some ''/tmp''" test_world] by simp
qed

text \<open>
  Claim C10. The guard of \<open>exec_subprocess\<close> tests the joined string, not the command: with
  an empty command and arguments that are not blank, \<open>Popen\<close> is called once, with a space
  followed by the arguments as the command line of the shell.
\<close>

theorem exec_subprocess_empty_cmd_spawns:
  "\<not> list_all py_isspace args \<Longrightarrow>
     spawned (snd (exec_subprocess h [] args cwd w)) = spawned w @ [('' '' @ args, cwd)]"
  by (simp add: exec_subprocess_spawned_eq py_isspace_space)

theorem exec_subprocess_empty_cmd_spawns_witness:
  "\<not> list_all py_isspace ''ls -l''
   \<and> spawned (snd (exec_subprocess test_host [] ''ls -l'' None test_world)) = [('' ls -l'', None)]"
proof -
  have b: "\<not> list_all py_isspace ''ls -l''"
    by (simp add: py_isspace_def)
  show ?thesis
    using b exec_subprocess_empty_cmd_spawns [OF b, of test_host None test_world]
    by (simp add: test_world_def)
qed

text \<open>
  Claim C5. For a joined command line that is not blank and a child that \<open>Popen\<close> has
  started, \<open>exec_subprocess\<close> returns \<open>True\<close> exactly when the exit status is 0; with any
  other exit status it raises an exception whose message is "Failed to execute command:"
  followed by the whole command line in quotes.
\<close>

theorem exec_subprocess_exit_status:
  assumes "\<not> list_all py_isspace (cmd @ '' '' @ args)"
    and "popen h (cmd @ '' '' @ args) cwd (environ w) (fs w) = Inr (out, returncode, fs')"
  shows "((fst (exec_subprocess h cmd args cwd w) = Inr (Some True)) = (returncode = 0))
       \<and> fst (exec_subprocess h cmd args cwd w) =
           (if returncode = 0 then Inr (Some True)
            else Inl (Exception (''Failed to execute command: '' @ [CHR 0x27] @
                                   (cmd @ '' '' @ args) @ [CHR 0x27])))
       \<and> sublist (cmd @ '' '' @ args)
            (''Failed to execute command: '' @ [CHR 0x27] @ (cmd @ '' '' @ args) @ [CHR 0x27])"
proof -
  have s: "py_strip (cmd @ '' '' @ args) \<noteq> []"
    using assms(1) by (simp add: py_strip_Nil_iff)
  have r: "fst (exec_subprocess h cmd args cwd w) =
           (if returncode = 0 then Inr (Some True)
            else Inl (Exception (''Failed to execute command: '' @ [CHR 0x27] @
                                   (cmd @ '' '' @ args) @ [CHR 0x27])))"
    using s assms(2) by (simp add: exec_subprocess_def Let_def)
  have c: "sublist (cmd @ '' '' @ args)
            (''Failed to execute command: '' @ [CHR 0x27] @ (cmd @ '' '' @ args) @ [CHR 0x27])"
  proof -
    have "sublist (cmd @ '' '' @ args)
            ((''Failed to execute command: '' @ [CHR 0x27]) @ (cmd @ '' '' @ args) @ [CHR 0x27])"
      by (rule sublist_appendI)
    then show ?thesis by simp
  qed
  from r c show ?thesis by simp
qed

theorem exec_subprocess_exit_status_witness:
  "\<not> list_all py_isspace (''false'' @ '' '' @ ''now'')
   \<and> popen test_host (''false'' @ '' '' @ ''now'') None (environ test_world) (fs test_world)
       = Inr ([], 1, fs test_world)
   \<and> fst (exec_subprocess test_host ''false'' ''now'' None test_world)
       = Inl (Exception (''Failed to execute command: '' @ [CHR 0x27] @ ''false now'' @ [CHR 0x27]))"
proof -
  have b: "\<not> list_all py_isspace (''false'' @ '' '' @ ''now'')"
    by (simp add: py_isspace_def)
  have p: "popen test_host (''false'' @ '' '' @ ''now'') None (environ test_world) (fs test_world)
       = Inr ([], 1, fs test_world)"
    by code_simp
  show ?thesis
    using b p exec_subprocess_exit_status [OF b p] by simp
qed

section \<open>Properties of the hook\<close>

text \<open>
  Claim C4. With \<open>only_on_task_processing_success\<close> set and \<open>task_processing_success\<close>
  false the hook returns at once: no exception, and the world (file system, environment,
  log, processes spawned) is the one it was called in.
\<close>

theorem success_gate_no_effect:
  "s_only_on_task_processing_success st \<Longrightarrow> \<not> task_processing_success d \<Longrightarrow>
     on_postprocessor_task_results h st d w = (Inr (), w)"
  by (simp add: on_postprocessor_task_results_def)

theorem success_gate_no_effect_witness:
  "s_only_on_task_processing_success (test_settings\<lparr>s_only_on_task_processing_success := True\<rparr>)
   \<and> \<not> task_processing_success (test_data\<lparr>task_processing_success := False\<rparr>)
   \<and> on_postprocessor_task_results test_host
        (test_settings\<lparr>s_only_on_task_processing_success := True\<rparr>)
        (test_data\<lparr>task_processing_success := False\<rparr>) test_world = (Inr (), test_world)"
  using success_gate_no_effect [of "test_settings\<lparr>s_only_on_task_processing_success := True\<rparr>"
      "test_data\<lparr>task_processing_success := False\<rparr>" test_host test_world]
  by simp

text \<open>
  Claim C9. Two payloads that agree on every field but \<open>file_move_processes_success\<close> give
  the same run of the hook: the same result or exception and the same world after it.
\<close>

theorem file_move_processes_success_unused:
  assumes "final_cache_path d1 = final_cache_path d2"
    and "library_id d1 = library_id d2"
    and "task_processing_success d1 = task_processing_success d2"
    and "destination_files d1 = destination_files d2"
    and "source_abspath d1 = source_abspath d2"
  shows "on_postprocessor_task_results h st d1 w = on_postprocessor_task_results h st d2 w"
proof -
  have b: "build_script h st d1 w = build_script h st d2 w"
    using assms(1,2) by (simp add: build_script_def)
  have r: "resolve_command h st d1 w = resolve_command h st d2 w"
    using b by (simp add: resolve_command_def)
  have v: "build_variable_map h d1 = build_variable_map h d2"
    using assms(1,2,5) by (simp add: build_variable_map_def fun_eq_iff split: option.splits)
  show ?thesis
    unfolding on_postprocessor_task_results_def r v assms(3,4) ..
qed

theorem file_move_processes_success_unused_witness:
  "file_move_processes_success test_data
     \<noteq> file_move_processes_success (test_data\<lparr>file_move_processes_success := False\<rparr>)
   \<and> on_postprocessor_task_results test_host test_settings test_data test_world
       = on_postprocessor_task_results test_host test_settings
           (test_data\<lparr>file_move_processes_success := False\<rparr>) test_world"
  using file_move_processes_success_unused [of test_data
      "test_data\<lparr>file_move_processes_success := False\<rparr>" test_host test_settings test_world]
  by (simp add: test_data_def)

text \<open>
  Claim C3. Before anything is substituted, every newline of the arguments becomes one
  space and every carriage return is dropped: the result holds neither character, and the
  hook run on arguments already treated so is the hook run on the arguments as set.
\<close>

theorem remove_line_breaks_spec:
  "remove_line_breaks args =
     concat (map (\<lambda>c. if c = CHR 0x0A then '' '' else if c = CHR 0x0D then [] else [c]) args)
   \<and> CHR 0x0A \<notin> set (remove_line_breaks args)
   \<and> CHR 0x0D \<notin> set (remove_line_breaks args)
   \<and> on_postprocessor_task_results h (st\<lparr>s_args := remove_line_breaks (s_args st)\<rparr>) d w =
       on_postprocessor_task_results h st d w"
proof -
  have b: "build_script h (st\<lparr>s_args := remove_line_breaks (s_args st)\<rparr>) d w = build_script h st d w"
    by (simp add: build_script_def get_dependency_cache_directory_def)
  have r: "resolve_command h (st\<lparr>s_args := remove_line_breaks (s_args st)\<rparr>) d w
             = resolve_command h st d w"
    using b by (simp add: resolve_command_def)
  have "on_postprocessor_task_results h (st\<lparr>s_args := remove_line_breaks (s_args st)\<rparr>) d w =
       on_postprocessor_task_results h st d w"
    unfolding on_postprocessor_task_results_def r by (simp add: remove_line_breaks_idem)
  then show ?thesis
    by (auto simp: remove_line_breaks_concat split: if_splits)
qed

theorem remove_line_breaks_spec_witness:
  "remove_line_breaks (''-i'' @ [CHR 0x0D, CHR 0x0A] @ ''{source_'' @ [CHR 0x0D] @ ''file_path}'')
     = ''-i {source_file_path}''"
  using remove_line_breaks_spec [of "''-i'' @ [CHR 0x0D, CHR 0x0A] @ ''{source_'' @ [CHR 0x0D] @ ''file_path}''"
      test_host test_settings test_data test_world]
  by simp

text \<open>
  A key whose value is \<open>None\<close>, or that the map does not hold, is replaced by itself:
  that step of the substitution loop changes neither string.
\<close>

lemma py_replace_same_aux: "new = old \<Longrightarrow> py_replace old new s = s"
proof (induction old new s rule: py_replace.induct)
  case (1 old new)
  then show ?case by simp
next
  case (2 old new c cs)
  show ?case
  proof (cases "old \<noteq> [] \<and> prefix old (c # cs)")
    case True
    then obtain zs where z: "c # cs = old @ zs"
      by (auto simp: prefix_def)
    then have d: "drop (length old) (c # cs) = zs"
      by simp
    have "py_replace old new (c # cs) = new @ py_replace old new (drop (length old) (c # cs))"
      using True by simp
    also have "\<dots> = old @ zs"
      using True 2 d by simp
    finally show ?thesis
      using z by simp
  next
    case False
    then show ?thesis
      using 2 by auto
  qed
qed

lemma py_replace_same: "py_replace k k s = s"
  by (simp add: py_replace_same_aux)

lemma substitute_key_None:
  "map_of vm key = None \<or> map_of vm key = Some None \<Longrightarrow> substitute_key vm ca key = ca"
  by (auto simp: substitute_key_def py_replace_same)

text \<open>
  Claim C6. Let the loop over the files before \<open>k\<close> return without an exception, in the
  world \<open>wk\<close>, and let \<open>exec_subprocess\<close> raise for file \<open>k\<close>, called as the loop calls it:
  with the strings the loop has built for \<open>k\<close>, after the log record of the iteration. Then
  the loop over the whole list raises that exception, and the world it ends in is the
  world that call of \<open>exec_subprocess\<close> has left, whatever files follow \<open>k\<close>: its last
  \<open>Popen\<close> call is the one for \<open>k\<close>, so nothing is executed for the later files, and what
  the earlier iterations and the failed one have done is not undone.
\<close>

theorem fail_fast_fan_out:
  assumes "run_for_each_file h vm cmd args pre w = (Inr (), wk)"
    and "loop_vars vm cmd args (pre @ [k]) = (vmk, cmdk, argsk)"
    and "exec_subprocess h cmdk argsk None
           (wk\<lparr>log := log wk @
                  [(INFO, ''Execute command on single file '' @ [CHR 0x27] @ cmdk @ '' '' @ argsk @
                            [CHR 0x27] @ ''.'')]\<rparr>) = (Inl e, w')"
  shows "run_for_each_file h vm cmd args (pre @ k # rest) w = (Inl e, w')
       \<and> spawned w' = spawned wk @ [(cmdk @ '' '' @ argsk, None)]
       \<and> prefix (spawned w) (spawned wk)"
proof -
  obtain vm1 c1 a1 where s: "loop_vars vm cmd args pre = (vm1, c1, a1)"
    by (cases "loop_vars vm cmd args pre")
  have k: "vmk = AList.update ''{output_file_path}'' (Some k) vm1"
      "cmdk = fst (substitute vmk (c1, a1))" "argsk = snd (substitute vmk (c1, a1))"
    using assms(2) s by (auto simp: loop_vars_snoc Let_def)
  have "run_for_each_file h vm cmd args (pre @ k # rest) w =
        run_for_each_file h vm1 c1 a1 (k # rest) wk"
    using assms(1) s by (simp add: run_for_each_file_append)
  also have "\<dots> = (Inl e, w')"
    using assms(3) k by (simp add: Let_def)
  finally have r: "run_for_each_file h vm cmd args (pre @ k # rest) w = (Inl e, w')" .
  have nb: "\<not> list_all py_isspace (cmdk @ '' '' @ argsk)"
  proof
    assume "list_all py_isspace (cmdk @ '' '' @ argsk)"
    then have "py_strip (cmdk @ '' '' @ argsk) = []"
      by (simp add: py_strip_Nil_iff)
    then show False
      using assms(3) by (simp add: exec_subprocess_def)
  qed
  have "spawned w' = spawned wk @ [(cmdk @ '' '' @ argsk, None)]"
    using exec_subprocess_spawned_eq[of h cmdk argsk None
        "wk\<lparr>log := log wk @
                  [(INFO, ''Execute command on single file '' @ [CHR 0x27] @ cmdk @ '' '' @ argsk @
                            [CHR 0x27] @ ''.'')]\<rparr>"] assms(3) nb
    by simp
  moreover have "prefix (spawned w) (spawned wk)"
    using run_for_each_file_spawned[of h vm cmd args pre w] assms(1) by (auto simp: prefix_def)
  ultimately show ?thesis using r by simp
qed

theorem fail_fast_fan_out_witness:
  "fst (run_for_each_file test_host [] ''rm'' ''/library/in.mkv'' [''/out/a.mkv''] test_world) = Inr ()
   \<and> loop_vars [] ''rm'' ''/library/in.mkv'' ([''/out/a.mkv''] @ [''/out/b.mkv''])
       = ([(''{output_file_path}'', Some ''/out/b.mkv'')], ''rm'', ''/library/in.mkv'')
   \<and> fst (exec_subprocess test_host ''rm'' ''/library/in.mkv'' None
        (snd (run_for_each_file test_host [] ''rm'' ''/library/in.mkv'' [''/out/a.mkv''] test_world)
           \<lparr>log := log (snd (run_for_each_file test_host [] ''rm'' ''/library/in.mkv''
                              [''/out/a.mkv''] test_world)) @
              [(INFO, ''Execute command on single file '' @ [CHR 0x27] @ ''rm'' @ '' '' @
                        ''/library/in.mkv'' @ [CHR 0x27] @ ''.'')]\<rparr>))
       = Inl (Exception (''Failed to execute command: '' @ [CHR 0x27] @ ''rm /library/in.mkv'' @ [CHR 0x27]))
   \<and> fst (run_for_each_file test_host [] ''rm'' ''/library/in.mkv''
        ([''/out/a.mkv''] @ ''/out/b.mkv'' # [''/out/c.mkv'']) test_world)
       = Inl (Exception (''Failed to execute command: '' @ [CHR 0x27] @ ''rm /library/in.mkv'' @ [CHR 0x27]))
   \<and> spawned (snd (run_for_each_file test_host [] ''rm'' ''/library/in.mkv''
        ([''/out/a.mkv''] @ ''/out/b.mkv'' # [''/out/c.mkv'']) test_world))
       = [(''rm /library/in.mkv'', None), (''rm /library/in.mkv'', None)]
   \<and> fs test_world = [(''/library/in.mkv'', 1024)]
   \<and> fs (snd (run_for_each_file test_host [] ''rm'' ''/library/in.mkv''
        ([''/out/a.mkv''] @ ''/out/b.mkv'' # [''/out/c.mkv'']) test_world)) = []"
proof -
  define wk where
    "wk = snd (run_for_each_file test_host [] ''rm'' ''/library/in.mkv'' [''/out/a.mkv''] test_world)"
  define w1 where
    "w1 = wk\<lparr>log := log wk @
              [(INFO, ''Execute command on single file '' @ [CHR 0x27] @ ''rm'' @ '' '' @
                        ''/library/in.mkv'' @ [CHR 0x27] @ ''.'')]\<rparr>"
  define w' where "w' = snd (exec_subprocess test_host ''rm'' ''/library/in.mkv'' None w1)"
  have a: "fst (run_for_each_file test_host [] ''rm'' ''/library/in.mkv'' [''/out/a.mkv''] test_world)
             = Inr ()"
    by code_simp
  have h1: "run_for_each_file test_host [] ''rm'' ''/library/in.mkv'' [''/out/a.mkv''] test_world
             = (Inr (), wk)"
    using a by (simp add: wk_def prod_eq_iff)
  have h2: "loop_vars [] ''rm'' ''/library/in.mkv'' ([''/out/a.mkv''] @ [''/out/b.mkv''])
       = ([(''{output_file_path}'', Some ''/out/b.mkv'')], ''rm'', ''/library/in.mkv'')"
    by code_simp
  have b: "fst (exec_subprocess test_host ''rm'' ''/library/in.mkv'' None w1)
       = Inl (Exception (''Failed to execute command: '' @ [CHR 0x27] @ ''rm /library/in.mkv'' @ [CHR 0x27]))"
    unfolding w1_def wk_def by code_simp
  have h3: "exec_subprocess test_host ''rm'' ''/library/in.mkv'' None
           (wk\<lparr>log := log wk @
                  [(INFO, ''Execute command on single file '' @ [CHR 0x27] @ ''rm'' @ '' '' @
                            ''/library/in.mkv'' @ [CHR 0x27] @ ''.'')]\<rparr>)
       = (Inl (Exception (''Failed to execute command: '' @ [CHR 0x27] @ ''rm /library/in.mkv'' @
                            [CHR 0x27])), w')"
    using b by (simp add: w'_def w1_def prod_eq_iff)
  have r: "run_for_each_file test_host [] ''rm'' ''/library/in.mkv''
        ([''/out/a.mkv''] @ ''/out/b.mkv'' # [''/out/c.mkv'']) test_world
       = (Inl (Exception (''Failed to execute command: '' @ [CHR 0x27] @ ''rm /library/in.mkv'' @
                            [CHR 0x27])), w')"
    using fail_fast_fan_out [OF h1 h2 h3, of "[''/out/c.mkv'']"] by blast
  have c: "spawned (snd (run_for_each_file test_host [] ''rm'' ''/library/in.mkv''
        ([''/out/a.mkv''] @ ''/out/b.mkv'' # [''/out/c.mkv'']) test_world))
       = [(''rm /library/in.mkv'', None), (''rm /library/in.mkv'', None)]"
    by code_simp
  have d: "fs test_world = [(''/library/in.mkv'', 1024)]"
    by (simp add: test_world_def)
  have f: "fs (snd (run_for_each_file test_host [] ''rm'' ''/library/in.mkv''
        ([''/out/a.mkv''] @ ''/out/b.mkv'' # [''/out/c.mkv'']) test_world)) = []"
    by code_simp
  show ?thesis
    using a h2 b r c d f unfolding w1_def wk_def by simp
qed

text \<open>
  Claim C7. With \<open>run_for_each_destination_file\<close> off, the gate open, the command resolved
  and the variable map built, the hook calls \<open>exec_subprocess\<close> once, whatever the list of
  destination files is: its outcome is the outcome of that one call, and \<open>Popen\<close> is called
  once (not at all when the joined command line is blank). The command and the arguments
  of the call are the strings left by the other keys, with \<open>{output_files}\<close> replaced by
  a JSON text that the JSON reader reads back as the whole list, item by item; a payload
  without the list gives the empty array.
\<close>

theorem batch_mode_single_execution:
  assumes "\<not> s_run_for_each_destination_file st"
    and "task_processing_success d \<or> \<not> s_only_on_task_processing_success st"
    and "resolve_command h st d w = (Inr cmd, w1)"
    and "build_variable_map h d (fs w1) = Inr vm"
    and "files = (case destination_files d of None \<Rightarrow> [] | Some xs \<Rightarrow> xs)"
    and "ca = substitute vm (cmd, remove_line_breaks (s_args st))"
    and "cmd' = py_replace ''{output_files}'' (json_dumps files) (fst ca)"
    and "args' = py_replace ''{output_files}'' (json_dumps files) (snd ca)"
  shows "fst (on_postprocessor_task_results h st d w) =
           (case fst (exec_subprocess h cmd' args' None
                   (w1\<lparr>log := log w1 @ [(INFO, ''Execute command '' @ [CHR 0x27] @ cmd' @ '' '' @
                                                   args' @ [CHR 0x27] @ ''.'')]\<rparr>)) of
              Inl e \<Rightarrow> Inl e | Inr r \<Rightarrow> Inr ())
       \<and> spawned (snd (on_postprocessor_task_results h st d w)) =
           spawned w1 @ (if list_all py_isspace (cmd' @ '' '' @ args') then []
                         else [(cmd' @ '' '' @ args', None)])
       \<and> json_loads (json_dumps files) = Some files
       \<and> json_dumps [] = ''[]''"
proof -
  have fresh: "''{output_files}'' \<notin> fst ` set vm"
  proof -
    have "fst ` set vm = set (map fst vm)" by simp
    then show ?thesis unfolding build_variable_map_keys[OF assms(4)] by simp
  qed
  have sub: "substitute (AList.update ''{output_files}'' (Some (json_dumps files)) vm)
               (cmd, remove_line_breaks (s_args st)) = (cmd', args')"
    using substitute_fresh[OF fresh] assms(6,7,8) by simp
  define w1' where "w1' = w1\<lparr>log := log w1 @ [(INFO, ''Execute command '' @ [CHR 0x27] @ cmd' @ '' '' @
                                                   args' @ [CHR 0x27] @ ''.'')]\<rparr>"
  have hook: "on_postprocessor_task_results h st d w =
          (case exec_subprocess h cmd' args' None w1' of
             (Inl e, w2) \<Rightarrow> (Inl e, w2) | (Inr r, w2) \<Rightarrow> (Inr (), w2))"
    using assms(1,2,3,4) sub
    by (auto simp: on_postprocessor_task_results_def bindE_def run_once_def Let_def w1'_def
          assms(5)[symmetric])
  have r: "fst (on_postprocessor_task_results h st d w) =
           (case fst (exec_subprocess h cmd' args' None w1') of Inl e \<Rightarrow> Inl e | Inr r \<Rightarrow> Inr ())"
    unfolding hook by (simp split: prod.splits sum.splits)
  have "snd (on_postprocessor_task_results h st d w) = snd (exec_subprocess h cmd' args' None w1')"
    unfolding hook by (simp split: prod.splits sum.splits)
  then have s: "spawned (snd (on_postprocessor_task_results h st d w)) =
           spawned w1 @ (if list_all py_isspace (cmd' @ '' '' @ args') then []
                         else [(cmd' @ '' '' @ args', None)])"
    by (simp add: exec_subprocess_spawned_eq w1'_def)
  have j: "json_dumps [] = ''[]''" by (simp add: json_dumps_def)
  have l: "json_loads (json_dumps files) = Some files"
    by (rule json_loads_json_dumps)
  from r s l j show ?thesis unfolding w1'_def by blast
qed

theorem batch_mode_single_execution_witness:
  "\<not> s_run_for_each_destination_file (test_settings\<lparr>s_args := ''{output_files}''\<rparr>)
   \<and> task_processing_success test_data
   \<and> resolve_command test_host (test_settings\<lparr>s_args := ''{output_files}''\<rparr>) test_data test_world
       = (Inr ''echo'', test_world)
   \<and> build_variable_map test_host test_data (fs test_world)
       = Inr [(''{library_id}'', Some ''1''), (''{final_cache_path}'', Some ''/cache/task-1/out.mkv''),
              (''{source_file_path}'', Some ''/library/in.mkv''), (''{source_file_size}'', Some ''1024'')]
   \<and> spawned (snd (on_postprocessor_task_results test_host
         (test_settings\<lparr>s_args := ''{output_files}''\<rparr>) test_data test_world))
       = [(''echo ['' @ [CHR 0x22] @ ''/out/a.mkv'' @ [CHR 0x22] @ '', '' @ [CHR 0x22] @
             ''/out/b.mkv'' @ [CHR 0x22] @ '']'', None)]
   \<and> json_loads (''['' @ [CHR 0x22] @ ''/out/a.mkv'' @ [CHR 0x22] @ '', '' @ [CHR 0x22] @
             ''/out/b.mkv'' @ [CHR 0x22] @ '']'') = Some [''/out/a.mkv'', ''/out/b.mkv'']"
proof -
  have j: "json_dumps [''/out/a.mkv'', ''/out/b.mkv''] =
             ''['' @ [CHR 0x22] @ ''/out/a.mkv'' @ [CHR 0x22] @ '', '' @ [CHR 0x22] @
             ''/out/b.mkv'' @ [CHR 0x22] @ '']''"
    by code_simp
  have h1: "\<not> s_run_for_each_destination_file (test_settings\<lparr>s_args := ''{output_files}''\<rparr>)"
    by (simp add: test_settings_def)
  have h2: "task_processing_success test_data"
    by (simp add: test_data_def)
  have g: "task_processing_success test_data
      \<or> \<not> s_only_on_task_processing_success (test_settings\<lparr>s_args := ''{output_files}''\<rparr>)"
    using h2 by simp
  have h3: "resolve_command test_host (test_settings\<lparr>s_args := ''{output_files}''\<rparr>) test_data test_world
       = (Inr ''echo'', test_world)"
    by (simp add: resolve_command_def test_settings_def)
  have h4: "build_variable_map test_host test_data (fs test_world)
       = Inr [(''{library_id}'', Some ''1''), (''{final_cache_path}'', Some ''/cache/task-1/out.mkv''),
              (''{source_file_path}'', Some ''/library/in.mkv''), (''{source_file_size}'', Some ''1024'')]"
    by code_simp
  have h5: "[''/out/a.mkv'', ''/out/b.mkv''] =
             (case destination_files test_data of None \<Rightarrow> [] | Some xs \<Rightarrow> xs)"
    by (simp add: test_data_def)
  have h6: "(''echo'', ''{output_files}'') =
      substitute [(''{library_id}'', Some ''1''), (''{final_cache_path}'', Some ''/cache/task-1/out.mkv''),
              (''{source_file_path}'', Some ''/library/in.mkv''), (''{source_file_size}'', Some ''1024'')]
        (''echo'', remove_line_breaks (s_args (test_settings\<lparr>s_args := ''{output_files}''\<rparr>)))"
    by code_simp
  have h7: "''echo'' = py_replace ''{output_files}'' (json_dumps [''/out/a.mkv'', ''/out/b.mkv''])
                        (fst (''echo'', ''{output_files}''))"
    by (simp add: py_replace_absent)
  have h8: "json_dumps [''/out/a.mkv'', ''/out/b.mkv''] =
             py_replace ''{output_files}'' (json_dumps [''/out/a.mkv'', ''/out/b.mkv''])
                        (snd (''echo'', ''{output_files}''))"
    by simp
  show ?thesis
    using h1 h2 h3 h4 batch_mode_single_execution [OF h1 g h3 h4 h5 h6 h7 h8]
    by (simp add: test_world_def py_isspace_def j)
qed

text \<open>
  Claim C1, at two destination files. The loop assigns the substituted strings back to
  \<open>cmd\<close> and \<open>args\<close>, so the first iteration uses up the token \<open>{output_file_path}\<close>: the
  second process is started with the path of the first file again, not with its own.
\<close>

theorem per_file_run_repeats_first_path:
  "destination_files test_data = Some [''/out/a.mkv'', ''/out/b.mkv'']
   \<and> spawned (snd (on_postprocessor_task_results test_host
         (test_settings\<lparr>s_run_for_each_destination_file := True, s_args := ''{output_file_path}''\<rparr>)
         test_data test_world))
       = [(''echo /out/a.mkv'', None), (''echo /out/a.mkv'', None)]"
  by code_simp

text \<open>
  Claim C2, at a source file that does not exist. \<open>source_size\<close> is \<open>None\<close>, the map holds
  \<open>str(None)\<close>, and the token \<open>{source_file_size}\<close> of the arguments is replaced by the
  text \<open>None\<close>: the command line run is \<open>echo None\<close>, not \<open>echo {source_file_size}\<close>.
\<close>

theorem missing_source_file_size_is_None:
  "\<not> path_exists test_host (fs test_world) ''/library/gone.mkv''
   \<and> s_args test_settings = ''{source_file_size}''
   \<and> spawned (snd (on_postprocessor_task_results test_host test_settings
         (test_data\<lparr>source_abspath := Some ''/library/gone.mkv''\<rparr>) test_world))
       = [(''echo None'', None)]"
  by code_simp

end
